theory Spec2Isabelle
  imports Complex_Main "HOL-Library.Sublist"
begin

section \<open>JavaScript values as the backend sees them\<close>

text \<open>
  \<^verbatim>\<open>backend.js\<close> is an Express application of three gated routes in front of the
  Supabase admin client. Everything it computes is a test on a JavaScript value (is it
  truthy, is it the string \<^verbatim>\<open>'admin'\<close>, does it start with \<^verbatim>\<open>'Bearer '\<close>) followed by a
  call to the provider or by a response. The values are those of JSON plus \<^verbatim>\<open>undefined\<close>.

  A number is an IEEE double: not-a-number, an infinity with its sign, or a finite value,
  which is a rational. The code only ever asks whether a number is truthy.
\<close>

datatype jsnum = NaN | Infinity bool | Finite rat

text \<open>
  A string is kept as its list of characters; the code tests strings for emptiness, for
  the ASCII prefix \<^verbatim>\<open>'Bearer '\<close> and for equality with \<^verbatim>\<open>'admin'\<close>, and cuts seven
  ASCII characters off a header. An object is the list of its own properties in insertion
  order; a lookup takes the first entry of a key.
\<close>

datatype jsval =
    JUndefined
  | JNull
  | JBool bool
  | JNum jsnum
  | JStr string
  | JArr "jsval list"
  | JObj "(string \<times> jsval) list"

text \<open>What \<^verbatim>\<open>if (v)\<close>, \<^verbatim>\<open>!v\<close> and \<^verbatim>\<open>v || w\<close> test.\<close>

fun truthy :: "jsval \<Rightarrow> bool" where
  "truthy JUndefined = False"
| "truthy JNull = False"
| "truthy (JBool b) = b"
| "truthy (JNum NaN) = False"
| "truthy (JNum (Infinity s)) = True"
| "truthy (JNum (Finite q)) = (q \<noteq> 0)"
| "truthy (JStr s) = (s \<noteq> [])"
| "truthy (JArr xs) = True"
| "truthy (JObj kvs) = True"

text \<open>The exceptions that can arise: a property read (or a destructuring) of
  \<^verbatim>\<open>undefined\<close> or \<^verbatim>\<open>null\<close>, and an awaited provider promise that rejects.\<close>

datatype exn = TypeError | Rejected jsval

text \<open>
  \<^verbatim>\<open>v.k\<close> and the destructuring \<^verbatim>\<open>const { k } = v\<close>. Both raise a TypeError on
  \<^verbatim>\<open>undefined\<close> and \<^verbatim>\<open>null\<close>. The names this program reads (\<^verbatim>\<open>data\<close>, \<^verbatim>\<open>user\<close>,
  \<^verbatim>\<open>error\<close>, \<^verbatim>\<open>user_metadata\<close>, \<^verbatim>\<open>role\<close>, \<^verbatim>\<open>email\<close>, \<^verbatim>\<open>password\<close>, \<^verbatim>\<open>id\<close>,
  \<^verbatim>\<open>message\<close>, \<^verbatim>\<open>users\<close>) are on no built-in prototype, so on a boolean, a number, a
  string or an array they read as \<^verbatim>\<open>undefined\<close>.
\<close>

fun get_prop :: "jsval \<Rightarrow> string \<Rightarrow> exn + jsval" where
  "get_prop JUndefined k = Inl TypeError"
| "get_prop JNull k = Inl TypeError"
| "get_prop (JObj kvs) k = Inr (case map_of kvs k of None \<Rightarrow> JUndefined | Some v \<Rightarrow> v)"
| "get_prop v k = Inr JUndefined"

text \<open>\<^verbatim>\<open>v?.k\<close>: \<^verbatim>\<open>undefined\<close> when \<^verbatim>\<open>v\<close> is \<^verbatim>\<open>undefined\<close> or \<^verbatim>\<open>null\<close>.\<close>

fun get_prop_opt :: "jsval \<Rightarrow> string \<Rightarrow> exn + jsval" where
  "get_prop_opt JUndefined k = Inr JUndefined"
| "get_prop_opt JNull k = Inr JUndefined"
| "get_prop_opt v k = get_prop v k"

section \<open>The provider, the request and the response\<close>

text \<open>
  The Supabase client is not part of this program: it is a parameter. Each of the four
  operations the backend awaits either resolves to a value (\<open>Inr\<close>) or rejects
  (\<open>Inl\<close>). A request makes each call at most once, so a function of the arguments is
  as general as the provider can be.
\<close>

record provider =
  getUser :: "string \<Rightarrow> exn + jsval"
  createUser :: "jsval \<Rightarrow> exn + jsval"
  listUsers :: "exn + jsval"
  deleteUser :: "jsval \<Rightarrow> exn + jsval"

text \<open>The calls a run makes to the provider, in order.\<close>

datatype call =
    GetUser string
  | AdminCreateUser jsval
  | AdminListUsers
  | AdminDeleteUser jsval

text \<open>
  What a handler reads of a request: the \<^verbatim>\<open>authorization\<close> header (Node gives a
  string, or \<^verbatim>\<open>undefined\<close> when there is none), the body as the JSON middleware left
  it, and \<^verbatim>\<open>req.user\<close>, which the gate sets.
\<close>

record request =
  req_authorization :: "string option"
  req_body :: jsval
  req_user :: jsval

text \<open>\<^verbatim>\<open>res.status(s).json(b)\<close>, with \<open>b\<close> the object handed to \<^verbatim>\<open>json\<close>;
  \<^verbatim>\<open>res.json(b)\<close> alone has status 200.\<close>

datatype response = Response nat jsval

fun status :: "response \<Rightarrow> nat" where
  "status (Response s b) = s"

text \<open>A middleware either answers or calls \<^verbatim>\<open>next()\<close>, here with the request it
  hands on.\<close>

datatype gate_result = Respond response | Next request

text \<open>A run ends in a value or in an exception, and has made some provider calls.\<close>

type_synonym 'a run = "(exn + 'a) \<times> call list"

definition error_body :: "jsval \<Rightarrow> jsval" where
  "error_body m = JObj [(''error'', m)]"

section \<open>The authorization gate\<close>

text \<open>Lines 39 and 40: \<^verbatim>\<open>req.headers['authorization'] || ''\<close>, then the token.\<close>

definition authHeader :: "request \<Rightarrow> string" where
  "authHeader req = (case req_authorization req of None \<Rightarrow> [] | Some h \<Rightarrow> if h = [] then [] else h)"

definition token :: "request \<Rightarrow> string option" where
  "token req =
     (if prefix ''Bearer '' (authHeader req) then Some (drop 7 (authHeader req)) else None)"

text \<open>\<^verbatim>\<open>!token\<close>: \<^verbatim>\<open>null\<close> and the empty string.\<close>

fun no_token :: "string option \<Rightarrow> bool" where
  "no_token None = True"
| "no_token (Some t) = (t = [])"

text \<open>Line 43: \<^verbatim>\<open>const { data: { user }, error } = ...\<close>, in the order the pattern reads.\<close>

definition destructure_getUser :: "jsval \<Rightarrow> exn + (jsval \<times> jsval)" where
  "destructure_getUser r =
     (case get_prop r ''data'' of
        Inl e \<Rightarrow> Inl e
      | Inr d \<Rightarrow>
          (case get_prop d ''user'' of
             Inl e \<Rightarrow> Inl e
           | Inr u \<Rightarrow>
               (case get_prop r ''error'' of
                  Inl e \<Rightarrow> Inl e
                | Inr er \<Rightarrow> Inr (u, er))))"

text \<open>Line 46: \<^verbatim>\<open>user.user_metadata?.role\<close>.\<close>

definition role_of :: "jsval \<Rightarrow> exn + jsval" where
  "role_of u =
     (case get_prop u ''user_metadata'' of
        Inl e \<Rightarrow> Inl e
      | Inr md \<Rightarrow> get_prop_opt md ''role'')"

text \<open>The body of the \<^verbatim>\<open>try\<close> block, lines 39 to 50.\<close>

definition requireAdmin_try :: "provider \<Rightarrow> request \<Rightarrow> gate_result run" where
  "requireAdmin_try p req =
     (case token req of
        None \<Rightarrow> (Inr (Respond (Response 401 (error_body (JStr ''Missing bearer token'')))), [])
      | Some t \<Rightarrow>
          if no_token (Some t)
          then (Inr (Respond (Response 401 (error_body (JStr ''Missing bearer token'')))), [])
          else
            (case getUser p t of
               Inl e \<Rightarrow> (Inl e, [GetUser t])
             | Inr r \<Rightarrow>
                 (case destructure_getUser r of
                    Inl e \<Rightarrow> (Inl e, [GetUser t])
                  | Inr (u, er) \<Rightarrow>
                      if truthy er \<or> \<not> truthy u
                      then (Inr (Respond (Response 401 (error_body (JStr ''Invalid token'')))),
                            [GetUser t])
                      else
                        (case role_of u of
                           Inl e \<Rightarrow> (Inl e, [GetUser t])
                         | Inr role \<Rightarrow>
                             if role \<noteq> JStr ''admin''
                             then (Inr (Respond (Response 403 (error_body (JStr ''Admin only'')))),
                                   [GetUser t])
                             else (Inr (Next (req\<lparr>req_user := u\<rparr>)), [GetUser t])))))"

text \<open>The whole function: the \<^verbatim>\<open>catch\<close> of lines 51 to 53 answers every exception of
  the block.\<close>

definition requireAdmin :: "provider \<Rightarrow> request \<Rightarrow> gate_result run" where
  "requireAdmin p req =
     (case requireAdmin_try p req of
        (Inl e, cs) \<Rightarrow>
          (Inr (Respond (Response 500 (error_body (JStr ''Auth verification failed'')))), cs)
      | (Inr g, cs) \<Rightarrow> (Inr g, cs))"

section \<open>The three operations\<close>

text \<open>\<^verbatim>\<open>req.body || {}\<close>.\<close>

definition body_or_empty :: "request \<Rightarrow> jsval" where
  "body_or_empty req = (if truthy (req_body req) then req_body req else JObj [])"

text \<open>Line 65: \<^verbatim>\<open>user_metadata || { role: 'user' }\<close>.\<close>

definition metadata_or_default :: "jsval \<Rightarrow> jsval" where
  "metadata_or_default user_metadata =
     (if truthy user_metadata then user_metadata else JObj [(''role'', JStr ''user'')])"

text \<open>The object of lines 62 to 67.\<close>

definition createUser_args :: "jsval \<Rightarrow> jsval \<Rightarrow> jsval \<Rightarrow> jsval" where
  "createUser_args email password user_metadata =
     JObj [(''email'', email), (''password'', password),
           (''user_metadata'', metadata_or_default user_metadata),
           (''email_confirm'', JBool True)]"

text \<open>Line 68 and its two copies: \<^verbatim>\<open>res.status(400).json({ error: error.message })\<close>.\<close>

definition provider_error :: "jsval \<Rightarrow> call list \<Rightarrow> response run" where
  "provider_error er cs =
     (case get_prop er ''message'' of
        Inl e \<Rightarrow> (Inl e, cs)
      | Inr m \<Rightarrow> (Inr (Response 400 (error_body m)), cs))"

text \<open>\<^verbatim>\<open>POST /admin/create-user\<close>, lines 58 to 70. An exception here is not caught: the
  handler's promise rejects. First lines 62 to 69, the call and its answer, for the
  argument object \<open>args\<close>; then the handler, which validates and builds \<open>args\<close>.\<close>

definition create_user_call :: "provider \<Rightarrow> jsval \<Rightarrow> response run" where
  "create_user_call p args =
     (case createUser p args of
        Inl e \<Rightarrow> (Inl e, [AdminCreateUser args])
      | Inr r \<Rightarrow>
     (case get_prop r ''data'' of
        Inl e \<Rightarrow> (Inl e, [AdminCreateUser args])
      | Inr d \<Rightarrow>
     (case get_prop r ''error'' of
        Inl e \<Rightarrow> (Inl e, [AdminCreateUser args])
      | Inr er \<Rightarrow>
          if truthy er then provider_error er [AdminCreateUser args]
          else
            (case get_prop d ''user'' of
               Inl e \<Rightarrow> (Inl e, [AdminCreateUser args])
             | Inr u \<Rightarrow> (Inr (Response 200 (JObj [(''user'', u)])), [AdminCreateUser args])))))"

definition create_user :: "provider \<Rightarrow> request \<Rightarrow> response run" where
  "create_user p req =
     (case get_prop (body_or_empty req) ''email'' of
        Inl e \<Rightarrow> (Inl e, [])
      | Inr email \<Rightarrow>
     (case get_prop (body_or_empty req) ''password'' of
        Inl e \<Rightarrow> (Inl e, [])
      | Inr password \<Rightarrow>
     (case get_prop (body_or_empty req) ''user_metadata'' of
        Inl e \<Rightarrow> (Inl e, [])
      | Inr user_metadata \<Rightarrow>
          if \<not> truthy email \<or> \<not> truthy password
          then (Inr (Response 400 (error_body (JStr ''email and password required''))), [])
          else create_user_call p (createUser_args email password user_metadata))))"

text \<open>\<^verbatim>\<open>GET /admin/list-users\<close>, lines 72 to 77.\<close>

definition list_users :: "provider \<Rightarrow> request \<Rightarrow> response run" where
  "list_users p req =
     (case listUsers p of
        Inl e \<Rightarrow> (Inl e, [AdminListUsers])
      | Inr r \<Rightarrow>
     (case get_prop r ''data'' of
        Inl e \<Rightarrow> (Inl e, [AdminListUsers])
      | Inr d \<Rightarrow>
     (case get_prop r ''error'' of
        Inl e \<Rightarrow> (Inl e, [AdminListUsers])
      | Inr er \<Rightarrow>
          if truthy er then provider_error er [AdminListUsers]
          else
            (case get_prop d ''users'' of
               Inl e \<Rightarrow> (Inl e, [AdminListUsers])
             | Inr us \<Rightarrow> (Inr (Response 200 (JObj [(''users'', us)])), [AdminListUsers])))))"

text \<open>\<^verbatim>\<open>POST /admin/delete-user\<close>, lines 79 to 85.\<close>

definition delete_user :: "provider \<Rightarrow> request \<Rightarrow> response run" where
  "delete_user p req =
     (case get_prop (body_or_empty req) ''id'' of
        Inl e \<Rightarrow> (Inl e, [])
      | Inr ident \<Rightarrow>
          if \<not> truthy ident
          then (Inr (Response 400 (error_body (JStr ''id required''))), [])
          else
            (case deleteUser p ident of
               Inl e \<Rightarrow> (Inl e, [AdminDeleteUser ident])
             | Inr r \<Rightarrow>
            (case get_prop r ''error'' of
               Inl e \<Rightarrow> (Inl e, [AdminDeleteUser ident])
             | Inr er \<Rightarrow>
                 if truthy er then provider_error er [AdminDeleteUser ident]
                 else (Inr (Response 200 (JObj [(''success'', JBool True)])),
                       [AdminDeleteUser ident]))))"

section \<open>The routes\<close>

text \<open>The four routes of lines 56 to 85, as the router matched them.\<close>

datatype endpoint = Health | CreateUser | ListUsers | DeleteUser

text \<open>\<^verbatim>\<open>app.post(path, requireAdmin, handler)\<close>: the handler runs on the request the gate
  passed to \<^verbatim>\<open>next()\<close>, and only then. The handler is an \<^verbatim>\<open>async\<close> function: an
  exception in it rejects its own promise and never reaches the gate's \<^verbatim>\<open>catch\<close>.\<close>

definition gated :: "provider \<Rightarrow> (provider \<Rightarrow> request \<Rightarrow> response run) \<Rightarrow> request \<Rightarrow> response run" where
  "gated p handler req =
     (case requireAdmin p req of
        (Inl e, cs) \<Rightarrow> (Inl e, cs)
      | (Inr (Respond rsp), cs) \<Rightarrow> (Inr rsp, cs)
      | (Inr (Next req'), cs) \<Rightarrow> (case handler p req' of (out, cs') \<Rightarrow> (out, cs @ cs')))"

fun app :: "provider \<Rightarrow> endpoint \<Rightarrow> request \<Rightarrow> response run" where
  "app p Health req = (Inr (Response 200 (JObj [(''ok'', JBool True)])), [])"
| "app p CreateUser req = gated p create_user req"
| "app p ListUsers req = gated p list_users req"
| "app p DeleteUser req = gated p delete_user req"

section \<open>Concrete requests and providers\<close>

text \<open>A caller whose role is \<^verbatim>\<open>admin\<close>, one whose role is \<^verbatim>\<open>user\<close>, and the two
  answers of the provider to a token.\<close>

definition admin_identity :: jsval where
  "admin_identity =
     JObj [(''id'', JStr ''u1''), (''user_metadata'', JObj [(''role'', JStr ''admin'')])]"

definition plain_identity :: jsval where
  "plain_identity =
     JObj [(''id'', JStr ''u2''), (''user_metadata'', JObj [(''role'', JStr ''user'')])]"

definition user_response :: "jsval \<Rightarrow> jsval \<Rightarrow> jsval" where
  "user_response u er = JObj [(''data'', JObj [(''user'', u)]), (''error'', er)]"

definition failure :: "string \<Rightarrow> jsval" where
  "failure m = JObj [(''data'', JObj [(''user'', JNull)]),
                     (''error'', JObj [(''message'', JStr m), (''status'', JNum (Finite 422))])]"

definition success :: jsval where
  "success = JObj [(''data'', JObj [(''user'', plain_identity)]), (''error'', JNull)]"

text \<open>A provider that knows the caller as \<open>who\<close> and carries every operation out.\<close>

definition accepting :: "jsval \<Rightarrow> provider" where
  "accepting who =
     \<lparr> getUser = (\<lambda>t. Inr (user_response who JNull)),
       createUser = (\<lambda>a. Inr success),
       listUsers = Inr (JObj [(''data'', JObj [(''users'', JArr [])]), (''error'', JNull)]),
       deleteUser = (\<lambda>i. Inr (JObj [(''data'', JObj []), (''error'', JNull)])) \<rparr>"

text \<open>A provider that knows the caller as an administrator and refuses every operation with
  the message \<open>m\<close>.\<close>

definition refusing :: "string \<Rightarrow> provider" where
  "refusing m =
     \<lparr> getUser = (\<lambda>t. Inr (user_response admin_identity JNull)),
       createUser = (\<lambda>a. Inr (failure m)),
       listUsers = Inr (failure m),
       deleteUser = (\<lambda>i. Inr (failure m)) \<rparr>"

text \<open>A provider that reports every token as invalid, and one whose promise rejects.\<close>

definition denying :: provider where
  "denying = (accepting JNull)\<lparr> getUser := (\<lambda>t. Inr (failure ''invalid JWT'')) \<rparr>"

definition unreachable :: provider where
  "unreachable = (accepting JNull)\<lparr> getUser := (\<lambda>t. Inl (Rejected (JStr ''fetch failed''))) \<rparr>"

definition request_with :: "string option \<Rightarrow> jsval \<Rightarrow> request" where
  "request_with h b = \<lparr> req_authorization = h, req_body = b, req_user = JUndefined \<rparr>"

text \<open>Bodies of create-user requests: one without \<^verbatim>\<open>email\<close>, one without
  \<^verbatim>\<open>user_metadata\<close>, and three that supply \<^verbatim>\<open>user_metadata\<close> as \<^verbatim>\<open>null\<close>, as
  \<^verbatim>\<open>{}\<close> and as \<^verbatim>\<open>{role: 'editor'}\<close>; and the body of a delete-user request.\<close>

definition body_without_email :: jsval where
  "body_without_email = JObj [(''password'', JStr ''x'')]"

definition body_plain :: jsval where
  "body_plain = JObj [(''email'', JStr ''a@b.com''), (''password'', JStr ''x'')]"

definition body_null_metadata :: jsval where
  "body_null_metadata =
     JObj [(''email'', JStr ''a@b.com''), (''password'', JStr ''x''), (''user_metadata'', JNull)]"

definition body_empty_metadata :: jsval where
  "body_empty_metadata =
     JObj [(''email'', JStr ''a@b.com''), (''password'', JStr ''x''), (''user_metadata'', JObj [])]"

definition body_editor_metadata :: jsval where
  "body_editor_metadata =
     JObj [(''email'', JStr ''a@b.com''), (''password'', JStr ''x''),
           (''user_metadata'', JObj [(''role'', JStr ''editor'')])]"

definition body_id :: jsval where
  "body_id = JObj [(''id'', JStr ''u2'')]"

section \<open>Facts about reading properties, the token and the gate\<close>

lemma get_prop_opt_total: "\<exists>x. get_prop_opt v k = Inr x"
  by (cases v) simp_all

lemma get_prop_truthy: "truthy v \<Longrightarrow> \<exists>x. get_prop v k = Inr x"
  by (cases v) simp_all

lemma get_prop_other: "get_prop v k = Inr x \<Longrightarrow> \<exists>y. get_prop v k' = Inr y"
  by (cases v) simp_all

lemma role_of_total: "truthy u \<Longrightarrow> \<exists>role. role_of u = Inr role"
  using get_prop_truthy [of u "''user_metadata''"] get_prop_opt_total
  by (auto simp: role_of_def)

lemma token_bearer: "req_authorization req = Some (''Bearer '' @ t) \<Longrightarrow> token req = Some t"
  by (simp add: token_def authHeader_def)

lemma token_none:
  "req_authorization req = None \<or> (\<exists>h. req_authorization req = Some h \<and> \<not> prefix ''Bearer '' h)
   \<Longrightarrow> token req = None"
  by (auto simp: token_def authHeader_def)

lemma truthy_body_or_empty: "truthy (body_or_empty req)"
  by (simp add: body_or_empty_def)

lemma requireAdmin_next:
  "requireAdmin p req = (Inr (Next req'), cs) \<Longrightarrow>
   \<exists>u t. req' = req\<lparr>req_user := u\<rparr> \<and> cs = [GetUser t]"
  by (auto simp: requireAdmin_def requireAdmin_try_def
      split: option.splits sum.splits if_splits prod.splits)

lemma body_or_empty_user: "body_or_empty (req\<lparr>req_user := u\<rparr>) = body_or_empty req"
  by (simp add: body_or_empty_def)

lemma requireAdmin_try_status:
  "requireAdmin_try p req = (Inr (Respond rsp), cs) \<Longrightarrow> status rsp = 401 \<or> status rsp = 403"
  by (auto simp: requireAdmin_try_def split: option.splits sum.splits if_splits prod.splits)

lemma create_user_calls:
  "get_prop (body_or_empty req) ''email'' = Inr email \<Longrightarrow> truthy email \<Longrightarrow>
   get_prop (body_or_empty req) ''password'' = Inr password \<Longrightarrow> truthy password \<Longrightarrow>
   get_prop (body_or_empty req) ''user_metadata'' = Inr md \<Longrightarrow>
   snd (create_user p req) = [AdminCreateUser (createUser_args email password md)]"
  by (simp add: create_user_def create_user_call_def provider_error_def split: sum.splits)

lemma gated_next:
  "requireAdmin p req = (Inr (Next req'), cs) \<Longrightarrow>
   gated p handler req = (fst (handler p req'), cs @ snd (handler p req'))"
  by (simp add: gated_def split: prod.splits)

lemma requireAdmin_accepts:
  "req_authorization req = Some (''Bearer '' @ t) \<Longrightarrow> t \<noteq> [] \<Longrightarrow>
   getUser p t = Inr (user_response admin_identity JNull) \<Longrightarrow>
   requireAdmin p req = (Inr (Next (req\<lparr>req_user := admin_identity\<rparr>)), [GetUser t])"
  by (simp add: requireAdmin_def requireAdmin_try_def token_bearer destructure_getUser_def
      user_response_def role_of_def admin_identity_def)

lemma provider_error_message:
  "get_prop er ''message'' = Inr m \<Longrightarrow>
   provider_error er cs = (Inr (Response 400 (JObj [(''error'', m)])), cs)"
  by (simp add: provider_error_def error_body_def)

section \<open>The gate's rejections\<close>

text \<open>
  Claim C1. A request carries a non-empty bearer token, the provider resolves the token
  to an identity (it reports no error and the user it returns is truthy), and the
  identity's \<^verbatim>\<open>user_metadata.role\<close> is not the string \<^verbatim>\<open>'admin'\<close>. Then the gate
  answers 403 with the body \<^verbatim>\<open>{error: 'Admin only'}\<close>, and the handler behind the gate
  does not run: whatever the handler is, the route's answer is the gate's, and the only
  provider call made is the token resolution.
\<close>

theorem gate_forbids_non_admin:
  assumes "req_authorization req = Some (''Bearer '' @ t)" and "t \<noteq> []"
      and "getUser p t = Inr r" and "destructure_getUser r = Inr (u, er)"
      and "\<not> truthy er" and "truthy u"
      and "role_of u \<noteq> Inr (JStr ''admin'')"
  shows "requireAdmin p req =
           (Inr (Respond (Response 403 (JObj [(''error'', JStr ''Admin only'')]))), [GetUser t])
       \<and> gated p handler req =
           (Inr (Response 403 (JObj [(''error'', JStr ''Admin only'')])), [GetUser t])
       \<and> (ep \<noteq> Health \<longrightarrow>
            app p ep req =
              (Inr (Response 403 (JObj [(''error'', JStr ''Admin only'')])), [GetUser t]))"
proof -
  from assms(1) have tok: "token req = Some t" by (rule token_bearer)
  from assms(6) obtain role where role: "role_of u = Inr role"
    using role_of_total by blast
  with assms(7) have "role \<noteq> JStr ''admin''" by simp
  with tok role assms(2-6) have gate: "requireAdmin p req =
      (Inr (Respond (Response 403 (JObj [(''error'', JStr ''Admin only'')]))), [GetUser t])"
    by (simp add: requireAdmin_def requireAdmin_try_def error_body_def)
  then have "gated p h req =
      (Inr (Response 403 (JObj [(''error'', JStr ''Admin only'')])), [GetUser t])" for h
    by (simp add: gated_def)
  with gate show ?thesis by (cases ep) simp_all
qed

theorem gate_forbids_non_admin_witness:
  "requireAdmin (accepting plain_identity) (request_with (Some ''Bearer abc'') JUndefined) =
     (Inr (Respond (Response 403 (JObj [(''error'', JStr ''Admin only'')]))), [GetUser ''abc''])
   \<and> gated (accepting plain_identity) delete_user (request_with (Some ''Bearer abc'') JUndefined) =
     (Inr (Response 403 (JObj [(''error'', JStr ''Admin only'')])), [GetUser ''abc''])
   \<and> app (accepting plain_identity) DeleteUser (request_with (Some ''Bearer abc'') JUndefined) =
     (Inr (Response 403 (JObj [(''error'', JStr ''Admin only'')])), [GetUser ''abc''])"
proof -
  have h1: "req_authorization (request_with (Some ''Bearer abc'') JUndefined)
            = Some (''Bearer '' @ ''abc'')"
    by (simp add: request_with_def)
  have h2: "''abc'' \<noteq> []" by simp
  have h3: "getUser (accepting plain_identity) ''abc'' = Inr (user_response plain_identity JNull)"
    by (simp add: accepting_def)
  have h4: "destructure_getUser (user_response plain_identity JNull) = Inr (plain_identity, JNull)"
    by (simp add: destructure_getUser_def user_response_def)
  have h5: "\<not> truthy JNull" by simp
  have h6: "truthy plain_identity" by (simp add: plain_identity_def)
  have h7: "role_of plain_identity \<noteq> Inr (JStr ''admin'')"
    by (simp add: role_of_def plain_identity_def)
  have e: "DeleteUser \<noteq> Health" by simp
  from gate_forbids_non_admin [OF h1 h2 h3 h4 h5 h6 h7, where handler = delete_user
      and ep = DeleteUser] e
  show ?thesis by blast
qed

text \<open>
  Claim C2. When the \<^verbatim>\<open>Authorization\<close> header is absent, or is present and does not
  begin with \<^verbatim>\<open>'Bearer '\<close>, the gate answers 401 with the body of a missing token, on
  each of the three gated routes, and no call is made to the provider.
\<close>

theorem gate_rejects_missing_bearer:
  assumes "req_authorization req = None
           \<or> (\<exists>h. req_authorization req = Some h \<and> \<not> prefix ''Bearer '' h)"
      and "ep \<noteq> Health"
  shows "requireAdmin p req =
           (Inr (Respond (Response 401 (JObj [(''error'', JStr ''Missing bearer token'')]))), [])
       \<and> app p ep req =
           (Inr (Response 401 (JObj [(''error'', JStr ''Missing bearer token'')])), [])"
proof -
  from assms(1) have "token req = None" by (rule token_none)
  then have gate: "requireAdmin p req =
      (Inr (Respond (Response 401 (JObj [(''error'', JStr ''Missing bearer token'')]))), [])"
    by (simp add: requireAdmin_def requireAdmin_try_def error_body_def)
  then have "gated p h req =
      (Inr (Response 401 (JObj [(''error'', JStr ''Missing bearer token'')])), [])" for h
    by (simp add: gated_def)
  with assms(2) gate show ?thesis by (cases ep) simp_all
qed

theorem gate_rejects_missing_bearer_witness:
  "requireAdmin (accepting admin_identity) (request_with (Some ''Basic abc'') JUndefined) =
     (Inr (Respond (Response 401 (JObj [(''error'', JStr ''Missing bearer token'')]))), [])
   \<and> app (accepting admin_identity) DeleteUser (request_with (Some ''Basic abc'') JUndefined) =
     (Inr (Response 401 (JObj [(''error'', JStr ''Missing bearer token'')])), [])"
proof -
  have h: "req_authorization (request_with (Some ''Basic abc'') JUndefined) = None
      \<or> (\<exists>h. req_authorization (request_with (Some ''Basic abc'') JUndefined) = Some h
             \<and> \<not> prefix ''Bearer '' h)"
    by (simp add: request_with_def)
  have e: "DeleteUser \<noteq> Health" by simp
  show ?thesis by (rule gate_rejects_missing_bearer [OF h e])
qed

text \<open>
  Claim C3. A request carries a non-empty bearer token and the provider's answer to it
  holds an error, or holds no user (a falsy one). Then the gate answers 401 with the body
  \<^verbatim>\<open>{error: 'Invalid token'}\<close>, and the handler behind the gate does not run.
\<close>

theorem gate_rejects_invalid_token:
  assumes "req_authorization req = Some (''Bearer '' @ t)" and "t \<noteq> []"
      and "getUser p t = Inr r" and "destructure_getUser r = Inr (u, er)"
      and "truthy er \<or> \<not> truthy u"
  shows "requireAdmin p req =
           (Inr (Respond (Response 401 (JObj [(''error'', JStr ''Invalid token'')]))), [GetUser t])
       \<and> gated p handler req =
           (Inr (Response 401 (JObj [(''error'', JStr ''Invalid token'')])), [GetUser t])
       \<and> (ep \<noteq> Health \<longrightarrow>
            app p ep req =
              (Inr (Response 401 (JObj [(''error'', JStr ''Invalid token'')])), [GetUser t]))"
proof -
  from assms(1) have tok: "token req = Some t" by (rule token_bearer)
  with assms(2-5) have gate: "requireAdmin p req =
      (Inr (Respond (Response 401 (JObj [(''error'', JStr ''Invalid token'')]))), [GetUser t])"
    by (auto simp: requireAdmin_def requireAdmin_try_def error_body_def)
  then have "gated p h req =
      (Inr (Response 401 (JObj [(''error'', JStr ''Invalid token'')])), [GetUser t])" for h
    by (simp add: gated_def)
  with gate show ?thesis by (cases ep) simp_all
qed

theorem gate_rejects_invalid_token_witness:
  "requireAdmin denying (request_with (Some ''Bearer expired'') JUndefined) =
     (Inr (Respond (Response 401 (JObj [(''error'', JStr ''Invalid token'')]))),
      [GetUser ''expired''])
   \<and> gated denying list_users (request_with (Some ''Bearer expired'') JUndefined) =
     (Inr (Response 401 (JObj [(''error'', JStr ''Invalid token'')])), [GetUser ''expired''])
   \<and> app denying ListUsers (request_with (Some ''Bearer expired'') JUndefined) =
     (Inr (Response 401 (JObj [(''error'', JStr ''Invalid token'')])), [GetUser ''expired''])"
proof -
  let ?er = "JObj [(''message'', JStr ''invalid JWT''), (''status'', JNum (Finite 422))]"
  have h1: "req_authorization (request_with (Some ''Bearer expired'') JUndefined)
            = Some (''Bearer '' @ ''expired'')"
    by (simp add: request_with_def)
  have h2: "''expired'' \<noteq> []" by simp
  have h3: "getUser denying ''expired'' = Inr (failure ''invalid JWT'')"
    by (simp add: denying_def)
  have h4: "destructure_getUser (failure ''invalid JWT'') = Inr (JNull, ?er)"
    by (simp add: destructure_getUser_def failure_def)
  have h5: "truthy ?er \<or> \<not> truthy JNull" by simp
  have e: "ListUsers \<noteq> Health" by simp
  from gate_rejects_invalid_token [OF h1 h2 h3 h4 h5, where handler = list_users
      and ep = ListUsers] e
  show ?thesis by blast
qed

text \<open>
  Claim C4. No exception leaves the gate: every run of \<open>requireAdmin\<close> ends in an
  answer or in \<^verbatim>\<open>next()\<close>. Whenever the \<^verbatim>\<open>try\<close> block raises, the gate answers 500
  with the one body \<^verbatim>\<open>{error: 'Auth verification failed'}\<close>, whatever was raised; this
  is so when the provider's promise rejects and when its answer cannot be destructured.
  The status 500 is kept apart from 401 and 403: the gate answers 500 exactly when the
  block raised.
\<close>

theorem gate_exception_is_500:
  "(\<exists>g cs. requireAdmin p req = (Inr g, cs))
   \<and> (requireAdmin_try p req = (Inl e, cs) \<longrightarrow>
        requireAdmin p req =
          (Inr (Respond (Response 500 (JObj [(''error'', JStr ''Auth verification failed'')]))), cs))
   \<and> (req_authorization req = Some (''Bearer '' @ t) \<and> t \<noteq> []
        \<and> (getUser p t = Inl e \<or> (\<exists>r. getUser p t = Inr r \<and> destructure_getUser r = Inl e)) \<longrightarrow>
        requireAdmin p req =
          (Inr (Respond (Response 500 (JObj [(''error'', JStr ''Auth verification failed'')]))),
           [GetUser t]))
   \<and> ((\<exists>rsp cs'. requireAdmin p req = (Inr (Respond rsp), cs') \<and> status rsp = 500)
        \<longleftrightarrow> (\<exists>e' cs'. requireAdmin_try p req = (Inl e', cs')))"
proof (intro conjI impI)
  show "\<exists>g cs. requireAdmin p req = (Inr g, cs)"
    by (cases "requireAdmin_try p req") (auto simp: requireAdmin_def split: sum.splits)
next
  assume "requireAdmin_try p req = (Inl e, cs)"
  then show "requireAdmin p req =
      (Inr (Respond (Response 500 (JObj [(''error'', JStr ''Auth verification failed'')]))), cs)"
    by (simp add: requireAdmin_def error_body_def)
next
  assume a: "req_authorization req = Some (''Bearer '' @ t) \<and> t \<noteq> []
        \<and> (getUser p t = Inl e \<or> (\<exists>r. getUser p t = Inr r \<and> destructure_getUser r = Inl e))"
  then have "token req = Some t" by (simp add: token_bearer)
  with a have "requireAdmin_try p req = (Inl e, [GetUser t])"
    by (auto simp: requireAdmin_try_def)
  then show "requireAdmin p req =
      (Inr (Respond (Response 500 (JObj [(''error'', JStr ''Auth verification failed'')]))),
       [GetUser t])"
    by (simp add: requireAdmin_def error_body_def)
next
  show "(\<exists>rsp cs'. requireAdmin p req = (Inr (Respond rsp), cs') \<and> status rsp = 500)
        \<longleftrightarrow> (\<exists>e' cs'. requireAdmin_try p req = (Inl e', cs'))"
  proof (cases "requireAdmin_try p req")
    case (Pair out cs0)
    show ?thesis
    proof (cases out)
      case (Inl e0)
      with Pair show ?thesis by (simp add: requireAdmin_def)
    next
      case (Inr g)
      show ?thesis
      proof (cases g)
        case (Respond rsp)
        with Pair Inr have "status rsp = 401 \<or> status rsp = 403"
          using requireAdmin_try_status by blast
        with Pair Inr Respond show ?thesis by (auto simp: requireAdmin_def)
      next
        case (Next r')
        with Pair Inr show ?thesis by (simp add: requireAdmin_def)
      qed
    qed
  qed
qed

theorem gate_exception_is_500_witness:
  "requireAdmin unreachable (request_with (Some ''Bearer abc'') JUndefined) =
     (Inr (Respond (Response 500 (JObj [(''error'', JStr ''Auth verification failed'')]))),
      [GetUser ''abc''])"
proof -
  have h: "req_authorization (request_with (Some ''Bearer abc'') JUndefined)
             = Some (''Bearer '' @ ''abc'') \<and> ''abc'' \<noteq> []
           \<and> (getUser unreachable ''abc'' = Inl (Rejected (JStr ''fetch failed''))
              \<or> (\<exists>r. getUser unreachable ''abc'' = Inr r
                    \<and> destructure_getUser r = Inl (Rejected (JStr ''fetch failed''))))"
    by (simp add: request_with_def unreachable_def)
  from gate_exception_is_500 [of unreachable "request_with (Some ''Bearer abc'') JUndefined"
      "Rejected (JStr ''fetch failed'')" "[]" "''abc''"] h
  show ?thesis by blast
qed

section \<open>The relay's validation and its answers\<close>

text \<open>
  Claim C5. A create-user request has passed the gate and its body has no \<^verbatim>\<open>email\<close> or
  no \<^verbatim>\<open>password\<close>. Then the handler answers 400 with the body
  \<^verbatim>\<open>{error: 'email and password required'}\<close> and calls the provider not at all; the
  route's only provider calls are the gate's, none of which creates an account.
\<close>

theorem create_user_missing_field:
  assumes "requireAdmin p req = (Inr (Next req'), cs)"
      and "get_prop (body_or_empty req) ''email'' = Inr JUndefined
           \<or> get_prop (body_or_empty req) ''password'' = Inr JUndefined"
  shows "create_user p req' =
           (Inr (Response 400 (JObj [(''error'', JStr ''email and password required'')])), [])
       \<and> app p CreateUser req =
           (Inr (Response 400 (JObj [(''error'', JStr ''email and password required'')])), cs)
       \<and> (\<forall>a. AdminCreateUser a \<notin> set cs)"
proof -
  from assms(1) obtain u t where r: "req' = req\<lparr>req_user := u\<rparr>" and c: "cs = [GetUser t]"
    using requireAdmin_next by blast
  obtain email password md where
    g: "get_prop (body_or_empty req') ''email'' = Inr email"
       "get_prop (body_or_empty req') ''password'' = Inr password"
       "get_prop (body_or_empty req') ''user_metadata'' = Inr md"
    using get_prop_truthy [OF truthy_body_or_empty] by metis
  with assms(2) r have "\<not> truthy email \<or> \<not> truthy password"
    by (auto simp: body_or_empty_user)
  with g have h: "create_user p req' =
      (Inr (Response 400 (JObj [(''error'', JStr ''email and password required'')])), [])"
    by (auto simp: create_user_def error_body_def)
  with assms(1) have "app p CreateUser req =
      (Inr (Response 400 (JObj [(''error'', JStr ''email and password required'')])), cs)"
    by (simp add: gated_next)
  with h c show ?thesis by simp
qed

theorem create_user_missing_field_witness:
  "create_user (accepting admin_identity)
     ((request_with (Some ''Bearer abc'') body_without_email)\<lparr>req_user := admin_identity\<rparr>) =
     (Inr (Response 400 (JObj [(''error'', JStr ''email and password required'')])), [])
   \<and> app (accepting admin_identity) CreateUser
       (request_with (Some ''Bearer abc'') body_without_email) =
     (Inr (Response 400 (JObj [(''error'', JStr ''email and password required'')])),
      [GetUser ''abc''])
   \<and> (\<forall>a. AdminCreateUser a \<notin> set [GetUser ''abc''])"
proof -
  let ?req = "request_with (Some ''Bearer abc'') body_without_email"
  have h1: "requireAdmin (accepting admin_identity) ?req =
      (Inr (Next (?req\<lparr>req_user := admin_identity\<rparr>)), [GetUser ''abc''])"
    by (rule requireAdmin_accepts) (simp_all add: request_with_def accepting_def)
  have h2: "get_prop (body_or_empty ?req) ''email'' = Inr JUndefined
      \<or> get_prop (body_or_empty ?req) ''password'' = Inr JUndefined"
    by (simp add: body_or_empty_def request_with_def body_without_email_def)
  show ?thesis by (rule create_user_missing_field [OF h1 h2])
qed

text \<open>
  Claim C6, as amended. In a create-user request whose \<^verbatim>\<open>email\<close> and \<^verbatim>\<open>password\<close>
  are present (truthy), the handler makes exactly one call to the provider's create-account
  operation. When \<^verbatim>\<open>user_metadata\<close> is omitted, the metadata of that call is exactly
  \<^verbatim>\<open>{role: 'user'}\<close>. When \<^verbatim>\<open>user_metadata\<close> is supplied with a truthy value, which
  every mapping is, the metadata of that call is the supplied value.
\<close>

theorem create_user_forwards_metadata:
  assumes "get_prop (body_or_empty req) ''email'' = Inr email" and "truthy email"
      and "get_prop (body_or_empty req) ''password'' = Inr password" and "truthy password"
      and "get_prop (body_or_empty req) ''user_metadata'' = Inr md"
  shows "(md = JUndefined \<longrightarrow>
            snd (create_user p req) =
              [AdminCreateUser (JObj [(''email'', email), (''password'', password),
                                      (''user_metadata'', JObj [(''role'', JStr ''user'')]),
                                      (''email_confirm'', JBool True)])])
       \<and> (truthy md \<longrightarrow>
            snd (create_user p req) =
              [AdminCreateUser (JObj [(''email'', email), (''password'', password),
                                      (''user_metadata'', md),
                                      (''email_confirm'', JBool True)])])"
  using create_user_calls [OF assms, of p]
  by (simp add: createUser_args_def metadata_or_default_def)

theorem create_user_forwards_metadata_witness:
  "snd (create_user (accepting admin_identity) (request_with (Some ''Bearer abc'') body_plain)) =
     [AdminCreateUser (JObj [(''email'', JStr ''a@b.com''), (''password'', JStr ''x''),
                             (''user_metadata'', JObj [(''role'', JStr ''user'')]),
                             (''email_confirm'', JBool True)])]
   \<and> snd (create_user (accepting admin_identity)
            (request_with (Some ''Bearer abc'') body_editor_metadata)) =
     [AdminCreateUser (JObj [(''email'', JStr ''a@b.com''), (''password'', JStr ''x''),
                             (''user_metadata'', JObj [(''role'', JStr ''editor'')]),
                             (''email_confirm'', JBool True)])]"
proof -
  let ?r1 = "request_with (Some ''Bearer abc'') body_plain"
  let ?r2 = "request_with (Some ''Bearer abc'') body_editor_metadata"
  have a: "get_prop (body_or_empty ?r1) ''email'' = Inr (JStr ''a@b.com'')"
          "get_prop (body_or_empty ?r1) ''password'' = Inr (JStr ''x'')"
          "get_prop (body_or_empty ?r1) ''user_metadata'' = Inr JUndefined"
    by (simp_all add: body_or_empty_def request_with_def body_plain_def)
  have b: "get_prop (body_or_empty ?r2) ''email'' = Inr (JStr ''a@b.com'')"
          "get_prop (body_or_empty ?r2) ''password'' = Inr (JStr ''x'')"
          "get_prop (body_or_empty ?r2) ''user_metadata'' = Inr (JObj [(''role'', JStr ''editor'')])"
    by (simp_all add: body_or_empty_def request_with_def body_editor_metadata_def)
  have t: "truthy (JStr ''a@b.com'')" "truthy (JStr ''x'')"
          "truthy (JObj [(''role'', JStr ''editor'')])"
    by simp_all
  from create_user_forwards_metadata [OF a(1) t(1) a(2) t(2) a(3), of "accepting admin_identity"]
       create_user_forwards_metadata [OF b(1) t(1) b(2) t(2) b(3), of "accepting admin_identity"] t(3)
  show ?thesis by blast
qed

text \<open>
  The claim as first stated has every supplied \<^verbatim>\<open>user_metadata\<close> forwarded as given.
  The body \<^verbatim>\<open>{email: 'a@b.com', password: 'x', user_metadata: null}\<close> supplies
  \<^verbatim>\<open>null\<close>; line 65 replaces it, and the provider receives \<^verbatim>\<open>{role: 'user'}\<close>.
\<close>

theorem create_user_null_metadata_counterexample:
  "get_prop (body_or_empty (request_with (Some ''Bearer abc'') body_null_metadata)) ''email''
     = Inr (JStr ''a@b.com'')
   \<and> get_prop (body_or_empty (request_with (Some ''Bearer abc'') body_null_metadata)) ''password''
     = Inr (JStr ''x'')
   \<and> get_prop (body_or_empty (request_with (Some ''Bearer abc'') body_null_metadata))
        ''user_metadata'' = Inr JNull
   \<and> snd (create_user (accepting admin_identity)
            (request_with (Some ''Bearer abc'') body_null_metadata)) =
       [AdminCreateUser (JObj [(''email'', JStr ''a@b.com''), (''password'', JStr ''x''),
                               (''user_metadata'', JObj [(''role'', JStr ''user'')]),
                               (''email_confirm'', JBool True)])]
   \<and> snd (create_user (accepting admin_identity)
            (request_with (Some ''Bearer abc'') body_null_metadata)) \<noteq>
       [AdminCreateUser (JObj [(''email'', JStr ''a@b.com''), (''password'', JStr ''x''),
                               (''user_metadata'', JNull),
                               (''email_confirm'', JBool True)])]"
  by (simp add: create_user_def create_user_call_def body_or_empty_def request_with_def
      body_null_metadata_def createUser_args_def metadata_or_default_def accepting_def
      success_def)

text \<open>
  Claim C7. A delete-user request has passed the gate. If its body has no \<^verbatim>\<open>id\<close>, the
  handler answers 400 with the body \<^verbatim>\<open>{error: 'id required'}\<close> and does not call the
  provider's delete operation. If the \<^verbatim>\<open>id\<close> is present (truthy) and the provider's
  answer to the deletion holds no error, the handler answers \<^verbatim>\<open>{success: true}\<close> with
  status 200, after the one call that deletes \<^verbatim>\<open>id\<close>.
\<close>

theorem delete_user_id:
  assumes "requireAdmin p req = (Inr (Next req'), cs)"
  shows "(get_prop (body_or_empty req) ''id'' = Inr JUndefined \<longrightarrow>
            delete_user p req' = (Inr (Response 400 (JObj [(''error'', JStr ''id required'')])), [])
          \<and> app p DeleteUser req =
              (Inr (Response 400 (JObj [(''error'', JStr ''id required'')])), cs)
          \<and> (\<forall>i. AdminDeleteUser i \<notin> set cs))
       \<and> (get_prop (body_or_empty req) ''id'' = Inr ident \<and> truthy ident
          \<and> deleteUser p ident = Inr r \<and> get_prop r ''error'' = Inr er \<and> \<not> truthy er \<longrightarrow>
            delete_user p req' =
              (Inr (Response 200 (JObj [(''success'', JBool True)])), [AdminDeleteUser ident])
          \<and> app p DeleteUser req =
              (Inr (Response 200 (JObj [(''success'', JBool True)])),
               cs @ [AdminDeleteUser ident]))"
proof -
  from assms obtain u t where r: "req' = req\<lparr>req_user := u\<rparr>" and c: "cs = [GetUser t]"
    using requireAdmin_next by blast
  have b: "body_or_empty req' = body_or_empty req"
    by (simp add: r body_or_empty_user)
  have route: "app p DeleteUser req = (out, cs @ cs')" if "delete_user p req' = (out, cs')"
    for out cs'
    using assms that by (simp add: gated_next)
  have missing: "delete_user p req' =
      (Inr (Response 400 (JObj [(''error'', JStr ''id required'')])), [])"
    if "get_prop (body_or_empty req) ''id'' = Inr JUndefined"
    using that by (simp add: delete_user_def b error_body_def)
  have deleted: "delete_user p req' =
      (Inr (Response 200 (JObj [(''success'', JBool True)])), [AdminDeleteUser ident])"
    if "get_prop (body_or_empty req) ''id'' = Inr ident" and "truthy ident"
      and "deleteUser p ident = Inr r" and "get_prop r ''error'' = Inr er" and "\<not> truthy er"
    using that by (simp add: delete_user_def b)
  show ?thesis
    using missing deleted route [OF missing] route [OF deleted] c by simp
qed

theorem delete_user_id_witness:
  "app (accepting admin_identity) DeleteUser (request_with (Some ''Bearer abc'') (JObj [])) =
     (Inr (Response 400 (JObj [(''error'', JStr ''id required'')])), [GetUser ''abc''])
   \<and> app (accepting admin_identity) DeleteUser (request_with (Some ''Bearer abc'') body_id) =
     (Inr (Response 200 (JObj [(''success'', JBool True)])),
      [GetUser ''abc'', AdminDeleteUser (JStr ''u2'')])"
proof -
  let ?r1 = "request_with (Some ''Bearer abc'') (JObj [])"
  let ?r2 = "request_with (Some ''Bearer abc'') body_id"
  let ?ok = "JObj [(''data'', JObj []), (''error'', JNull)]"
  have g1: "requireAdmin (accepting admin_identity) ?r1 =
      (Inr (Next (?r1\<lparr>req_user := admin_identity\<rparr>)), [GetUser ''abc''])"
    by (rule requireAdmin_accepts) (simp_all add: request_with_def accepting_def)
  have g2: "requireAdmin (accepting admin_identity) ?r2 =
      (Inr (Next (?r2\<lparr>req_user := admin_identity\<rparr>)), [GetUser ''abc''])"
    by (rule requireAdmin_accepts) (simp_all add: request_with_def accepting_def)
  have m: "get_prop (body_or_empty ?r1) ''id'' = Inr JUndefined"
    by (simp add: body_or_empty_def request_with_def)
  have v: "get_prop (body_or_empty ?r2) ''id'' = Inr (JStr ''u2'') \<and> truthy (JStr ''u2'')
      \<and> deleteUser (accepting admin_identity) (JStr ''u2'') = Inr ?ok
      \<and> get_prop ?ok ''error'' = Inr JNull \<and> \<not> truthy JNull"
    by (simp add: body_or_empty_def request_with_def body_id_def accepting_def)
  from delete_user_id [OF g1, of "JStr ''u2''" ?ok JNull] m
       delete_user_id [OF g2, of "JStr ''u2''" ?ok JNull] v
  show ?thesis by simp
qed

text \<open>
  Claim C8. The provider's answer to a create-user, list-users or delete-user call holds
  an error whose \<^verbatim>\<open>message\<close> is \<open>m\<close>. Then the handler answers 400 and the
  \<^verbatim>\<open>error\<close> field of its body is \<open>m\<close> itself: nothing else of the provider's error
  (a code, a status) has any part in the answer.
\<close>

theorem provider_failure_verbatim:
  assumes "get_prop r ''error'' = Inr er" and "truthy er"
      and "get_prop er ''message'' = Inr m"
  shows "(get_prop (body_or_empty req) ''email'' = Inr email \<and> truthy email
          \<and> get_prop (body_or_empty req) ''password'' = Inr password \<and> truthy password
          \<and> get_prop (body_or_empty req) ''user_metadata'' = Inr md
          \<and> createUser p (createUser_args email password md) = Inr r \<longrightarrow>
            create_user p req =
              (Inr (Response 400 (JObj [(''error'', m)])),
               [AdminCreateUser (createUser_args email password md)]))
       \<and> (listUsers p = Inr r \<longrightarrow>
            list_users p req = (Inr (Response 400 (JObj [(''error'', m)])), [AdminListUsers]))
       \<and> (get_prop (body_or_empty req) ''id'' = Inr ident \<and> truthy ident
          \<and> deleteUser p ident = Inr r \<longrightarrow>
            delete_user p req =
              (Inr (Response 400 (JObj [(''error'', m)])), [AdminDeleteUser ident]))"
proof -
  from assms(1) obtain d where d: "get_prop r ''data'' = Inr d"
    using get_prop_other by blast
  note e = provider_error_message [OF assms(3)]
  have "create_user_call p args = (Inr (Response 400 (JObj [(''error'', m)])), [AdminCreateUser args])"
    if "createUser p args = Inr r" for args
    using that d assms(1,2) by (simp add: create_user_call_def e)
  moreover have "list_users p req = (Inr (Response 400 (JObj [(''error'', m)])), [AdminListUsers])"
    if "listUsers p = Inr r"
    using that d assms(1,2) by (simp add: list_users_def e)
  moreover have "delete_user p req =
      (Inr (Response 400 (JObj [(''error'', m)])), [AdminDeleteUser ident])"
    if "get_prop (body_or_empty req) ''id'' = Inr ident" and "truthy ident"
      and "deleteUser p ident = Inr r"
    using that assms(1,2) by (simp add: delete_user_def e)
  ultimately show ?thesis by (simp add: create_user_def)
qed

theorem provider_failure_verbatim_witness:
  "create_user (refusing ''User already registered'')
       (request_with (Some ''Bearer abc'') body_plain) =
     (Inr (Response 400 (JObj [(''error'', JStr ''User already registered'')])),
      [AdminCreateUser (createUser_args (JStr ''a@b.com'') (JStr ''x'') JUndefined)])
   \<and> list_users (refusing ''User already registered'')
       (request_with (Some ''Bearer abc'') JUndefined) =
     (Inr (Response 400 (JObj [(''error'', JStr ''User already registered'')])), [AdminListUsers])
   \<and> delete_user (refusing ''User already registered'')
       (request_with (Some ''Bearer abc'') body_id) =
     (Inr (Response 400 (JObj [(''error'', JStr ''User already registered'')])),
      [AdminDeleteUser (JStr ''u2'')])"
proof -
  let ?p = "refusing ''User already registered''"
  let ?er = "JObj [(''message'', JStr ''User already registered''), (''status'', JNum (Finite 422))]"
  let ?r1 = "request_with (Some ''Bearer abc'') body_plain"
  let ?r3 = "request_with (Some ''Bearer abc'') body_id"
  have h1: "get_prop (failure ''User already registered'') ''error'' = Inr ?er"
    by (simp add: failure_def)
  have h2: "truthy ?er" by simp
  have h3: "get_prop ?er ''message'' = Inr (JStr ''User already registered'')" by simp
  have c: "get_prop (body_or_empty ?r1) ''email'' = Inr (JStr ''a@b.com'')
      \<and> truthy (JStr ''a@b.com'')
      \<and> get_prop (body_or_empty ?r1) ''password'' = Inr (JStr ''x'') \<and> truthy (JStr ''x'')
      \<and> get_prop (body_or_empty ?r1) ''user_metadata'' = Inr JUndefined
      \<and> createUser ?p (createUser_args (JStr ''a@b.com'') (JStr ''x'') JUndefined)
          = Inr (failure ''User already registered'')"
    by (simp add: body_or_empty_def request_with_def body_plain_def refusing_def)
  have l: "listUsers ?p = Inr (failure ''User already registered'')"
    by (simp add: refusing_def)
  have d: "get_prop (body_or_empty ?r3) ''id'' = Inr (JStr ''u2'') \<and> truthy (JStr ''u2'')
      \<and> deleteUser ?p (JStr ''u2'') = Inr (failure ''User already registered'')"
    by (simp add: body_or_empty_def request_with_def body_id_def refusing_def)
  from provider_failure_verbatim [OF h1 h2 h3, where p = ?p and req = ?r1
         and email = "JStr ''a@b.com''" and password = "JStr ''x''" and md = JUndefined]
       provider_failure_verbatim [OF h1 h2 h3, where p = ?p
         and req = "request_with (Some ''Bearer abc'') JUndefined"]
       provider_failure_verbatim [OF h1 h2 h3, where p = ?p and req = ?r3
         and ident = "JStr ''u2''"]
       c l d
  show ?thesis by blast
qed

text \<open>
  Claim C9. A request has no parsed body (\<^verbatim>\<open>req.body\<close> is \<^verbatim>\<open>undefined\<close>). The
  create-user and delete-user handlers read their fields from an empty object in its
  place, and each ends in its 400 answer for a missing field, not in an exception, and
  without a provider call.
\<close>

theorem handlers_tolerate_no_body:
  assumes "req_body req = JUndefined"
  shows "body_or_empty req = JObj []
       \<and> create_user p req =
           (Inr (Response 400 (JObj [(''error'', JStr ''email and password required'')])), [])
       \<and> delete_user p req =
           (Inr (Response 400 (JObj [(''error'', JStr ''id required'')])), [])"
  using assms by (simp add: body_or_empty_def create_user_def delete_user_def error_body_def)

theorem handlers_tolerate_no_body_witness:
  "body_or_empty (request_with (Some ''Bearer abc'') JUndefined) = JObj []
   \<and> create_user (accepting admin_identity) (request_with (Some ''Bearer abc'') JUndefined) =
       (Inr (Response 400 (JObj [(''error'', JStr ''email and password required'')])), [])
   \<and> delete_user (accepting admin_identity) (request_with (Some ''Bearer abc'') JUndefined) =
       (Inr (Response 400 (JObj [(''error'', JStr ''id required'')])), [])"
proof -
  have h: "req_body (request_with (Some ''Bearer abc'') JUndefined) = JUndefined"
    by (simp add: request_with_def)
  show ?thesis by (rule handlers_tolerate_no_body [OF h])
qed

text \<open>
  Claim C10. In a valid create-user request, the default \<^verbatim>\<open>{role: 'user'}\<close> is what
  the provider receives for every falsy \<^verbatim>\<open>user_metadata\<close>: \<^verbatim>\<open>null\<close>, \<^verbatim>\<open>false\<close>
  and the empty string among them. A supplied \<^verbatim>\<open>{}\<close> is what the provider receives
  unchanged, and it has no \<^verbatim>\<open>role\<close>.
\<close>

theorem metadata_default_for_falsy:
  assumes "get_prop (body_or_empty req) ''email'' = Inr email" and "truthy email"
      and "get_prop (body_or_empty req) ''password'' = Inr password" and "truthy password"
      and "get_prop (body_or_empty req) ''user_metadata'' = Inr md"
  shows "(md = JNull \<or> md = JBool False \<or> md = JStr [] \<or> \<not> truthy md \<longrightarrow>
            snd (create_user p req) =
              [AdminCreateUser (JObj [(''email'', email), (''password'', password),
                                      (''user_metadata'', JObj [(''role'', JStr ''user'')]),
                                      (''email_confirm'', JBool True)])])
       \<and> (md = JObj [] \<longrightarrow>
            snd (create_user p req) =
              [AdminCreateUser (JObj [(''email'', email), (''password'', password),
                                      (''user_metadata'', JObj []),
                                      (''email_confirm'', JBool True)])]
            \<and> get_prop md ''role'' = Inr JUndefined)"
  using create_user_calls [OF assms, of p]
  by (auto simp: createUser_args_def metadata_or_default_def)

theorem metadata_default_for_falsy_witness:
  "snd (create_user (accepting admin_identity)
          (request_with (Some ''Bearer abc'') body_null_metadata)) =
     [AdminCreateUser (JObj [(''email'', JStr ''a@b.com''), (''password'', JStr ''x''),
                             (''user_metadata'', JObj [(''role'', JStr ''user'')]),
                             (''email_confirm'', JBool True)])]
   \<and> snd (create_user (accepting admin_identity)
            (request_with (Some ''Bearer abc'') body_empty_metadata)) =
     [AdminCreateUser (JObj [(''email'', JStr ''a@b.com''), (''password'', JStr ''x''),
                             (''user_metadata'', JObj []),
                             (''email_confirm'', JBool True)])]"
proof -
  let ?r1 = "request_with (Some ''Bearer abc'') body_null_metadata"
  let ?r2 = "request_with (Some ''Bearer abc'') body_empty_metadata"
  have a: "get_prop (body_or_empty ?r1) ''email'' = Inr (JStr ''a@b.com'')"
          "get_prop (body_or_empty ?r1) ''password'' = Inr (JStr ''x'')"
          "get_prop (body_or_empty ?r1) ''user_metadata'' = Inr JNull"
    by (simp_all add: body_or_empty_def request_with_def body_null_metadata_def)
  have b: "get_prop (body_or_empty ?r2) ''email'' = Inr (JStr ''a@b.com'')"
          "get_prop (body_or_empty ?r2) ''password'' = Inr (JStr ''x'')"
          "get_prop (body_or_empty ?r2) ''user_metadata'' = Inr (JObj [])"
    by (simp_all add: body_or_empty_def request_with_def body_empty_metadata_def)
  have t: "truthy (JStr ''a@b.com'')" "truthy (JStr ''x'')"
    by simp_all
  from metadata_default_for_falsy [OF a(1) t(1) a(2) t(2) a(3), of "accepting admin_identity"]
       metadata_default_for_falsy [OF b(1) t(1) b(2) t(2) b(3), of "accepting admin_identity"]
  show ?thesis by blast
qed

end
